theory Spec2Isabelle
  imports Complex_Main "HOL-Library.Word" "HOL-Library.Log_Nat"
begin

section \<open>Data model of \<open>Project1/main.go\<close>\<close>

text \<open>
  Go's \<open>int64\<close> is a 64-bit word: \<open>+\<close> and \<open>-\<close> wrap around, and the comparisons
  of the source are the signed ones (\<open>\<le>s\<close>, \<open><s\<close>).
\<close>

type_synonym int64 = "64 word"

record Process =
  ProcessID :: int64
  ArrivalTime :: int64
  BurstDuration :: int64
  Priority :: int64

record TimeSlice =
  PID :: int64
  Start :: int64
  Stop :: int64

text \<open>
  A row of the schedule table. The source stores the seven columns as the strings
  \<open>fmt.Sprint\<close> prints; the model keeps the numbers that are printed, under the column
  names of the table header.
\<close>

record Row =
  rowID :: int64
  rowPriority :: int64
  rowBurst :: int64
  rowArrival :: int64
  rowWait :: int64
  rowTurnaround :: int64
  rowExit :: int64

text \<open>
  The \<open>float64\<close> values of the source are IEEE-754 binary64 numbers: a finite value, an
  infinity or NaN. Every conversion, sum and quotient is rounded to the nearest
  representable value, ties to the even significand; a result whose magnitude reaches
  \<open>2 ^ 1024\<close> after rounding (its exponent is 1024 or more) is an infinity. A zero carries no sign in the model: the
  program divides only by conversions of integers, which are never the negative zero.
\<close>

datatype float64 = Finite real | PosInf | NegInf | NaN

text \<open>The nearest integer, ties to the even one.\<close>

definition round_even :: "real \<Rightarrow> int" where
  "round_even x =
     (let f = \<lfloor>x\<rfloor>; d = x - of_int f in
      if d < 1 / 2 then f else if 1 / 2 < d then f + 1 else if even f then f else f + 1)"

text \<open>The binary exponent of \<open>x \<noteq> 0\<close>: the \<open>e\<close> with \<open>2 ^ e \<le> \<bar>x\<bar> < 2 ^ (e + 1)\<close>.\<close>

definition exponent :: "real \<Rightarrow> int" where
  "exponent x =
     (if 1 \<le> \<bar>x\<bar> then bitlen \<lfloor>\<bar>x\<bar>\<rfloor> - 1 else - bitlen (\<lceil>1 / \<bar>x\<bar>\<rceil> - 1))"

definition pow2 :: "int \<Rightarrow> real" where
  "pow2 e = (if 0 \<le> e then 2 ^ nat e else 1 / 2 ^ nat (- e))"

text \<open>
  Rounding to binary64: the significand has 53 bits, so the spacing of the representable
  values around \<open>x\<close> is \<open>2 ^ (e - 52)\<close>, with \<open>e\<close> the exponent of \<open>x\<close> and at least \<open>-1022\<close>
  (below that the values are subnormal).
\<close>

definition fround :: "real \<Rightarrow> float64" where
  "fround x =
     (if x = 0 then Finite 0
      else let q = pow2 (max (exponent x) (- 1022) - 52);
               r = of_int (round_even (x / q)) * q
           in if r \<noteq> 0 \<and> 1024 \<le> exponent r then (if 0 < x then PosInf else NegInf)
              else Finite r)"

text \<open>\<open>float64(x)\<close> for an \<open>int64\<close>, and \<open>float64(len(processes))\<close>.\<close>

definition float64_of :: "int64 \<Rightarrow> float64" where
  "float64_of x = fround (real_of_int (sint x))"

definition float64_of_len :: "nat \<Rightarrow> float64" where
  "float64_of_len n = fround (real n)"

text \<open>\<open>x + y\<close> on \<open>float64\<close>.\<close>

fun fadd :: "float64 \<Rightarrow> float64 \<Rightarrow> float64" where
  "fadd (Finite x) (Finite y) = fround (x + y)"
| "fadd NaN _ = NaN"
| "fadd _ NaN = NaN"
| "fadd PosInf NegInf = NaN"
| "fadd NegInf PosInf = NaN"
| "fadd PosInf _ = PosInf"
| "fadd _ PosInf = PosInf"
| "fadd NegInf _ = NegInf"
| "fadd _ NegInf = NegInf"

text \<open>
  \<open>x / y\<close> on \<open>float64\<close>. Go does not panic on a zero \<open>float64\<close> divisor: the quotient is
  NaN for \<open>0 / 0\<close> and an infinity for any other finite dividend.
\<close>

fun fdiv :: "float64 \<Rightarrow> float64 \<Rightarrow> float64" where
  "fdiv (Finite x) (Finite y) =
     (if y \<noteq> 0 then fround (x / y)
      else if x = 0 then NaN
      else if 0 < x then PosInf else NegInf)"
| "fdiv NaN _ = NaN"
| "fdiv _ NaN = NaN"
| "fdiv (Finite x) _ = Finite 0"
| "fdiv PosInf (Finite y) = (if y < 0 then NegInf else PosInf)"
| "fdiv NegInf (Finite y) = (if y < 0 then PosInf else NegInf)"
| "fdiv _ _ = NaN"

datatype error = IndexOutOfRange

text \<open>The local variables that every scheduler declares in its \<open>var\<close> block.\<close>

record locals =
  serviceTime :: int64
  totalWait :: float64
  totalTurnaround :: float64
  lastCompletion :: float64
  waitingTime :: int64
  schedule :: "Row option list"
  gantt :: "TimeSlice list"

text \<open>SJF, priority and round-robin scheduling also keep a map and a working copy.\<close>

record work = locals +
  remainingBurst :: "int64 \<rightharpoonup> int64"
  copyProcesses :: "Process list"

text \<open>What a scheduler hands to \<open>outputGantt\<close> and \<open>outputSchedule\<close>.\<close>

record report =
  outGantt :: "TimeSlice list"
  outRows :: "Row option list"
  aveWait :: float64
  aveTurnaround :: float64
  aveThroughput :: float64

definition summary :: "nat \<Rightarrow> 'a locals_scheme \<Rightarrow> report" where
  "summary n s =
     (let count = float64_of_len n in
      \<lparr>outGantt = gantt s, outRows = schedule s,
       aveWait = fdiv (totalWait s) count,
       aveTurnaround = fdiv (totalTurnaround s) count,
       aveThroughput = fdiv count (lastCompletion s)\<rparr>)"

text \<open>Reading a Go map: a missing key reads as the zero value.\<close>

definition lookup :: "(int64 \<rightharpoonup> int64) \<Rightarrow> int64 \<Rightarrow> int64" where
  "lookup m k = (case m k of None \<Rightarrow> 0 | Some v \<Rightarrow> v)"

definition min_int64 :: "int64 \<Rightarrow> int64 \<Rightarrow> int64" where
  "min_int64 a b = (if a <s b then a else b)"

text \<open>
  \<open>schedule[len(processes)-len(copyProcesses)] = row\<close>: the index is a Go \<open>int\<close>, and
  the assignment panics when it is negative or not below \<open>len(schedule)\<close>.
\<close>

definition set_row :: "nat \<Rightarrow> nat \<Rightarrow> Row \<Rightarrow> Row option list \<Rightarrow> error + Row option list" where
  "set_row n m r sched =
     (let i = int n - int m in
      if 0 \<le> i \<and> i < int (length sched) then Inr (sched[nat i := Some r])
      else Inl IndexOutOfRange)"

text \<open>\<open>append(s[:i], s[i+1:]...)\<close> as a value.\<close>

definition remove_at :: "nat \<Rightarrow> 'a list \<Rightarrow> 'a list" where
  "remove_at i xs = take i xs @ drop (Suc i) xs"

definition init_remaining :: "Process list \<Rightarrow> (int64 \<rightharpoonup> int64)" where
  "init_remaining ps = fold (\<lambda>p m. m(ProcessID p \<mapsto> BurstDuration p)) ps Map.empty"

definition init_locals :: "nat \<Rightarrow> locals" where
  "init_locals n =
     \<lparr>serviceTime = 0, totalWait = Finite 0, totalTurnaround = Finite 0,
      lastCompletion = Finite 0,
      waitingTime = 0, schedule = replicate n None, gantt = []\<rparr>"

definition init_work :: "Process list \<Rightarrow> work" where
  "init_work processes =
     \<lparr>serviceTime = 0, totalWait = Finite 0, totalTurnaround = Finite 0,
      lastCompletion = Finite 0,
      waitingTime = 0, schedule = replicate (length processes) None, gantt = [],
      remainingBurst = init_remaining processes, copyProcesses = processes\<rparr>"

section \<open>First-come, first-serve\<close>

definition FCFS_body :: "Process list \<Rightarrow> nat \<Rightarrow> locals \<Rightarrow> locals" where
  "FCFS_body processes i s =
     (let p = processes ! i;
          wt = (if 0 <s ArrivalTime p then serviceTime s - ArrivalTime p else waitingTime s);
          start = wt + ArrivalTime p;
          turnaround = BurstDuration p + wt;
          completion = BurstDuration p + ArrivalTime p + wt;
          st = serviceTime s + BurstDuration p
      in \<lparr>serviceTime = st,
          totalWait = fadd (totalWait s) (float64_of wt),
          totalTurnaround = fadd (totalTurnaround s) (float64_of turnaround),
          lastCompletion = float64_of completion,
          waitingTime = wt,
          schedule = (schedule s)[i := Some
            \<lparr>rowID = ProcessID p, rowPriority = Priority p, rowBurst = BurstDuration p,
             rowArrival = ArrivalTime p, rowWait = wt, rowTurnaround = turnaround,
             rowExit = completion\<rparr>],
          gantt = gantt s @ [\<lparr>PID = ProcessID p, Start = start, Stop = st\<rparr>]\<rparr>)"

definition FCFS_loop :: "Process list \<Rightarrow> nat \<Rightarrow> locals" where
  "FCFS_loop processes k = fold (FCFS_body processes) [0..<k] (init_locals (length processes))"

definition FCFSSchedule :: "Process list \<Rightarrow> report" where
  "FCFSSchedule processes =
     summary (length processes) (FCFS_loop processes (length processes))"

section \<open>Shortest job first\<close>

definition SJF_scan :: "Process list \<Rightarrow> int64 \<Rightarrow> (int64 \<rightharpoonup> int64) \<Rightarrow> nat \<Rightarrow> nat \<Rightarrow> nat" where
  "SJF_scan cp st rem i idx =
     (if ArrivalTime (cp ! i) \<le>s st then
        (if lookup rem (ProcessID (cp ! i)) <s lookup rem (ProcessID (cp ! idx)) then i else idx)
      else idx)"

definition shortestJobIndex :: "Process list \<Rightarrow> int64 \<Rightarrow> (int64 \<rightharpoonup> int64) \<Rightarrow> nat" where
  "shortestJobIndex cp st rem = fold (SJF_scan cp st rem) [0..<length cp] 0"

text \<open>
  The part of the loop body after the selection, shared word for word by
  \<open>SJFSchedule\<close> and \<open>SJFPrioritySchedule\<close>: \<open>idx\<close> is the selected index.
\<close>

definition run_job :: "nat \<Rightarrow> nat \<Rightarrow> work \<Rightarrow> error + work" where
  "run_job n idx s =
     (let cp = copyProcesses s;
          job = cp ! idx;
          rem = (remainingBurst s)(ProcessID job := None);
          wt = (if serviceTime s <s ArrivalTime job then ArrivalTime job - serviceTime s
                else waitingTime s);
          start = serviceTime s + wt;
          turnaround = wt + BurstDuration job;
          completion = serviceTime s + wt + BurstDuration job
      in case set_row n (length cp)
            \<lparr>rowID = ProcessID job, rowPriority = Priority job, rowBurst = BurstDuration job,
             rowArrival = ArrivalTime job, rowWait = wt, rowTurnaround = turnaround,
             rowExit = completion\<rparr> (schedule s) of
           Inl e \<Rightarrow> Inl e
         | Inr sched \<Rightarrow> Inr
            \<lparr>serviceTime = serviceTime s + turnaround,
             totalWait = fadd (totalWait s) (float64_of wt),
             totalTurnaround = fadd (totalTurnaround s) (float64_of turnaround),
             lastCompletion = float64_of completion,
             waitingTime = wt,
             schedule = sched,
             gantt = gantt s @ [\<lparr>PID = ProcessID job, Start = start, Stop = start + turnaround\<rparr>],
             remainingBurst = rem,
             copyProcesses = remove_at idx cp\<rparr>)"

definition SJF_iter :: "nat \<Rightarrow> work \<Rightarrow> error + work" where
  "SJF_iter n s =
     run_job n (shortestJobIndex (copyProcesses s) (serviceTime s) (remainingBurst s)) s"

section \<open>Priority\<close>

definition Priority_scan :: "Process list \<Rightarrow> int64 \<Rightarrow> nat \<Rightarrow> nat \<Rightarrow> nat" where
  "Priority_scan cp st i idx =
     (if ArrivalTime (cp ! i) \<le>s st then
        (if Priority (cp ! i) <s Priority (cp ! idx) then i else idx)
      else idx)"

definition highestPriorityIndex :: "Process list \<Rightarrow> int64 \<Rightarrow> nat" where
  "highestPriorityIndex cp st = fold (Priority_scan cp st) [0..<length cp] 0"

definition Priority_iter :: "nat \<Rightarrow> work \<Rightarrow> error + work" where
  "Priority_iter n s = run_job n (highestPriorityIndex (copyProcesses s) (serviceTime s)) s"


section \<open>The outer loops of SJF and priority scheduling\<close>

lemma run_job_length:
  "run_job n idx s = Inr s' \<Longrightarrow> idx < length (copyProcesses s) \<Longrightarrow>
   length (copyProcesses s') < length (copyProcesses s)"
  by (auto simp: run_job_def Let_def remove_at_def split: sum.splits)

lemma scan_fold_less:
  fixes g :: "nat \<Rightarrow> nat \<Rightarrow> nat"
  assumes "\<And>i idx. g i idx = i \<or> g i idx = idx"
  shows "0 < m \<Longrightarrow> fold g [0..<m] 0 < m"
proof (induction m)
  case 0
  then show ?case by simp
next
  case (Suc m)
  show ?case
  proof (cases "m = 0")
    case True
    with assms [of 0 0] show ?thesis by auto
  next
    case False
    with Suc have "fold g [0..<m] 0 < m" by simp
    with assms [of m "fold g [0..<m] 0"] show ?thesis by auto
  qed
qed

lemma shortestJobIndex_less: "cp \<noteq> [] \<Longrightarrow> shortestJobIndex cp st rem < length cp"
  unfolding shortestJobIndex_def
  by (rule scan_fold_less) (auto simp: SJF_scan_def)

lemma highestPriorityIndex_less: "cp \<noteq> [] \<Longrightarrow> highestPriorityIndex cp st < length cp"
  unfolding highestPriorityIndex_def
  by (rule scan_fold_less) (auto simp: Priority_scan_def)

function SJF_loop :: "nat \<Rightarrow> work \<Rightarrow> error + work" where
  "SJF_loop n s =
     (if copyProcesses s = [] then Inr s
      else case SJF_iter n s of
             Inl e \<Rightarrow> Inl e
           | Inr s' \<Rightarrow> SJF_loop n s')"
  by pat_completeness auto
termination
proof (relation "measure (\<lambda>(n, s). length (copyProcesses s))")
  show "wf (measure (\<lambda>(n, s). length (copyProcesses s)))" by simp
next
  fix n :: nat and s s' :: work
  assume "copyProcesses s \<noteq> []" and "SJF_iter n s = Inr s'"
  then show "((n, s'), (n, s)) \<in> measure (\<lambda>(n, s). length (copyProcesses s))"
    using run_job_length [of n _ s s'] shortestJobIndex_less [of "copyProcesses s"]
    by (simp add: SJF_iter_def)
qed

function Priority_loop :: "nat \<Rightarrow> work \<Rightarrow> error + work" where
  "Priority_loop n s =
     (if copyProcesses s = [] then Inr s
      else case Priority_iter n s of
             Inl e \<Rightarrow> Inl e
           | Inr s' \<Rightarrow> Priority_loop n s')"
  by pat_completeness auto
termination
proof (relation "measure (\<lambda>(n, s). length (copyProcesses s))")
  show "wf (measure (\<lambda>(n, s). length (copyProcesses s)))" by simp
next
  fix n :: nat and s s' :: work
  assume "copyProcesses s \<noteq> []" and "Priority_iter n s = Inr s'"
  then show "((n, s'), (n, s)) \<in> measure (\<lambda>(n, s). length (copyProcesses s))"
    using run_job_length [of n _ s s'] highestPriorityIndex_less [of "copyProcesses s"]
    by (simp add: Priority_iter_def)
qed

definition SJFSchedule :: "Process list \<Rightarrow> error + report" where
  "SJFSchedule processes =
     (case SJF_loop (length processes) (init_work processes) of
        Inl e \<Rightarrow> Inl e
      | Inr s \<Rightarrow> Inr (summary (length processes) s))"

definition SJFPrioritySchedule :: "Process list \<Rightarrow> error + report" where
  "SJFPrioritySchedule processes =
     (case Priority_loop (length processes) (init_work processes) of
        Inl e \<Rightarrow> Inl e
      | Inr s \<Rightarrow> Inr (summary (length processes) s))"

section \<open>Round-robin\<close>

text \<open>
  The body of \<open>if copyProcesses[i].ArrivalTime <= serviceTime\<close> up to the Gantt entry:
  one quantum for the process at index \<open>i\<close>.
\<close>

definition RR_slice :: "nat \<Rightarrow> nat \<Rightarrow> work \<Rightarrow> error + work" where
  "RR_slice n i s =
     (let cp = copyProcesses s;
          p = cp ! i;
          burstTime = min_int64 (lookup (remainingBurst s) (ProcessID p)) 1;
          rem = (remainingBurst s)(ProcessID p \<mapsto> lookup (remainingBurst s) (ProcessID p) - burstTime);
          wt = (if lookup rem (ProcessID p) = 0
                then serviceTime s + 1 - ArrivalTime p - burstTime
                else serviceTime s - ArrivalTime p);
          start = serviceTime s + wt;
          turnaround = wt + burstTime;
          completion = serviceTime s + 1
      in case set_row n (length cp)
            \<lparr>rowID = ProcessID p, rowPriority = Priority p, rowBurst = BurstDuration p,
             rowArrival = ArrivalTime p, rowWait = wt, rowTurnaround = turnaround,
             rowExit = completion\<rparr> (schedule s) of
           Inl e \<Rightarrow> Inl e
         | Inr sched \<Rightarrow> Inr
            \<lparr>serviceTime = completion,
             totalWait = fadd (totalWait s) (float64_of wt),
             totalTurnaround = fadd (totalTurnaround s) (float64_of turnaround),
             lastCompletion = float64_of completion,
             waitingTime = wt,
             schedule = sched,
             gantt = gantt s @ [\<lparr>PID = ProcessID p, Start = start, Stop = start + turnaround\<rparr>],
             remainingBurst = rem,
             copyProcesses = cp\<rparr>)"

text \<open>
  The inner \<open>for i := range copyProcesses\<close> over the indices still to visit. The range
  is fixed when the loop starts; the list changes only at the removal, which is followed
  by \<open>break\<close>.
\<close>

fun RR_scan :: "nat \<Rightarrow> nat list \<Rightarrow> work \<Rightarrow> error + work" where
  "RR_scan n [] s = Inr s"
| "RR_scan n (i # is) s =
     (if ArrivalTime (copyProcesses s ! i) \<le>s serviceTime s then
        (case RR_slice n i s of
           Inl e \<Rightarrow> Inl e
         | Inr s' \<Rightarrow>
             if lookup (remainingBurst s') (ProcessID (copyProcesses s' ! i)) = 0
             then Inr (s'\<lparr>copyProcesses := remove_at i (copyProcesses s')\<rparr>)
             else RR_scan n is s')
      else RR_scan n is s)"

definition RR_pass :: "nat \<Rightarrow> work \<Rightarrow> error + work" where
  "RR_pass n s = RR_scan n [0..<length (copyProcesses s)] s"

text \<open>
  The outer \<open>for len(copyProcesses) > 0\<close>. Nothing bounds the number of passes, so the
  loop is a partial function: \<open>None\<close> is a run that never leaves the loop.
\<close>

partial_function (option) RR_loop :: "nat \<Rightarrow> work \<Rightarrow> (error + work) option" where
  "RR_loop n s =
     (if copyProcesses s = [] then Some (Inr s)
      else case RR_pass n s of
             Inl e \<Rightarrow> Some (Inl e)
           | Inr s' \<Rightarrow> RR_loop n s')"

declare RR_loop.simps [code]

definition RRSchedule :: "Process list \<Rightarrow> (error + report) option" where
  "RRSchedule processes =
     (case RR_loop (length processes) (init_work processes) of
        None \<Rightarrow> None
      | Some (Inl e) \<Rightarrow> Some (Inl e)
      | Some (Inr s) \<Rightarrow> Some (Inr (summary (length processes) s)))"

section \<open>Measures on the results\<close>

definition cpu_time :: "TimeSlice list \<Rightarrow> int64" where
  "cpu_time g = sum_list (map (\<lambda>e. Stop e - Start e) g)"

definition total_burst :: "Process list \<Rightarrow> int64" where
  "total_burst ps = sum_list (map BurstDuration ps)"

text \<open>A pass of round-robin in which no pending process has arrived yet.\<close>

definition idle :: "work \<Rightarrow> bool" where
  "idle s \<longleftrightarrow>
     copyProcesses s \<noteq> [] \<and> list_all (\<lambda>p. \<not> ArrivalTime p \<le>s serviceTime s) (copyProcesses s)"

text \<open>
  The indices a selection scan considers: index 0, where the scan starts, and every index
  whose process has arrived.
\<close>

definition candidate :: "Process list \<Rightarrow> int64 \<Rightarrow> nat \<Rightarrow> bool" where
  "candidate cp st j \<longleftrightarrow> j < length cp \<and> (j = 0 \<or> ArrivalTime (cp ! j) \<le>s st)"

text \<open>\<open>i\<close> is the first index, among the candidates below \<open>m\<close>, with the least key.\<close>

definition first_least :: "(nat \<Rightarrow> int64) \<Rightarrow> (nat \<Rightarrow> bool) \<Rightarrow> nat \<Rightarrow> nat \<Rightarrow> bool" where
  "first_least key cand m i \<longleftrightarrow>
     cand i \<and> (\<forall>j<m. cand j \<longrightarrow> key i \<le>s key j) \<and> (\<forall>j<i. cand j \<longrightarrow> key i <s key j)"

text \<open>The wait and the exit time of a table row; an unwritten row reads as 0.\<close>

definition wait_of :: "Row option \<Rightarrow> int64" where
  "wait_of r = (case r of None \<Rightarrow> 0 | Some row \<Rightarrow> rowWait row)"

definition exit_of :: "Row option \<Rightarrow> int64" where
  "exit_of r = (case r of None \<Rightarrow> 0 | Some row \<Rightarrow> rowExit row)"

text \<open>The row copies the four input columns of the process.\<close>

definition row_of :: "Process \<Rightarrow> Row \<Rightarrow> bool" where
  "row_of p r \<longleftrightarrow>
     rowID r = ProcessID p \<and> rowPriority r = Priority p \<and>
     rowBurst r = BurstDuration p \<and> rowArrival r = ArrivalTime p"

text \<open>
  Row \<open>k\<close> of SJF and priority scheduling: it belongs to an input process, its turnaround
  is wait plus burst, and its exit is the exit of the row before (the clock when the
  iteration starts, 0 for the first row) plus wait plus burst.
\<close>

definition timed_row :: "Process list \<Rightarrow> Row option list \<Rightarrow> nat \<Rightarrow> bool" where
  "timed_row ps rows k \<longleftrightarrow>
     (case rows ! k of
        None \<Rightarrow> False
      | Some r \<Rightarrow>
          list_ex (\<lambda>p. row_of p r) ps \<and>
          rowTurnaround r = rowWait r + rowBurst r \<and>
          rowExit r = (if k = 0 then 0 else exit_of (rows ! (k - 1))) + rowWait r + rowBurst r)"

text \<open>The loop invariant of SJF and priority scheduling for the rows written so far.\<close>

definition rows_inv :: "nat \<Rightarrow> Process list \<Rightarrow> work \<Rightarrow> bool" where
  "rows_inv n ps s \<longleftrightarrow>
     length (schedule s) = n \<and> length (copyProcesses s) \<le> n \<and>
     set (copyProcesses s) \<subseteq> set ps \<and>
     (\<forall>k < n - length (copyProcesses s). timed_row ps (schedule s) k) \<and>
     serviceTime s =
       (if n - length (copyProcesses s) = 0 then 0
        else exit_of (schedule s ! (n - length (copyProcesses s) - 1)))"







section \<open>The selection scans\<close>

text \<open>
  Both selection loops have one shape: the candidate starts at index 0 and moves to an
  index that has arrived and whose key is strictly smaller.
\<close>

lemma scan_fold:
  fixes k :: "nat \<Rightarrow> int" and c :: "nat \<Rightarrow> bool"
  defines "g \<equiv> (\<lambda>i idx. if c i then (if k i < k idx then i else idx) else idx)"
  defines "r \<equiv> (\<lambda>m. fold g [0..<m] 0)"
  shows "(r m = 0 \<or> (r m < m \<and> c (r m)))
       \<and> k (r m) \<le> k 0
       \<and> (\<forall>j<m. c j \<longrightarrow> k (r m) \<le> k j)
       \<and> (\<forall>j<r m. j = 0 \<or> c j \<longrightarrow> k (r m) < k j)"
proof (induction m)
  case 0
  show ?case by (simp add: r_def)
next
  case (Suc m)
  have step: "r (Suc m) = g m (r m)"
    by (simp add: r_def)
  show ?case
  proof (cases "c m \<and> k m < k (r m)")
    case True
    then have eq: "r (Suc m) = m" by (simp add: step g_def)
    from Suc True have "\<forall>j<m. j = 0 \<or> c j \<longrightarrow> k m < k j"
      by (metis (no_types, lifting) le_less_trans not_less_iff_gr_or_eq not_le)
    with Suc True show ?thesis
      unfolding eq by (auto simp: less_Suc_eq intro: less_imp_le order.trans)
  next
    case False
    then have eq: "r (Suc m) = r m" by (auto simp: step g_def)
    from Suc False show ?thesis
      unfolding eq by (auto simp: less_Suc_eq)
  qed
qed

lemma shortestJobIndex_fold:
  "shortestJobIndex cp st rem =
     fold (\<lambda>i idx. if ArrivalTime (cp ! i) \<le>s st
                    then (if sint (lookup rem (ProcessID (cp ! i))) < sint (lookup rem (ProcessID (cp ! idx)))
                          then i else idx)
                    else idx) [0..<length cp] 0"
  unfolding shortestJobIndex_def SJF_scan_def word_sless_alt ..

lemma highestPriorityIndex_fold:
  "highestPriorityIndex cp st =
     fold (\<lambda>i idx. if ArrivalTime (cp ! i) \<le>s st
                    then (if sint (Priority (cp ! i)) < sint (Priority (cp ! idx)) then i else idx)
                    else idx) [0..<length cp] 0"
  unfolding highestPriorityIndex_def Priority_scan_def word_sless_alt ..


section \<open>Round-robin with nothing to run\<close>

lemma RR_scan_idle:
  "\<forall>i\<in>set is. \<not> ArrivalTime (copyProcesses s ! i) \<le>s serviceTime s \<Longrightarrow> RR_scan n is s = Inr s"
  by (induction "is") auto

lemma RR_pass_idle: "idle s \<Longrightarrow> RR_pass n s = Inr s"
  unfolding RR_pass_def by (rule RR_scan_idle) (simp add: idle_def list_all_iff)

lemma RR_loop_not_idle:
  assumes "RR_loop n s = Some y"
  shows "\<not> idle s"
proof (rule RR_loop.raw_induct [where P = "\<lambda>n s y. \<not> idle s", OF _ assms])
  fix f n s and y :: "error + work"
  assume IH: "\<And>n s y. f n s = Some y \<Longrightarrow> \<not> idle s"
    and eq: "(if copyProcesses s = [] then Some (Inr s)
      else case RR_pass n s of Inl e \<Rightarrow> Some (Inl e) | Inr s' \<Rightarrow> f n s') = Some y"
  show "\<not> idle s"
  proof
    assume i: "idle s"
    then have "RR_pass n s = Inr s" by (rule RR_pass_idle)
    with i eq have "f n s = Some y" by (simp add: idle_def)
    with IH i show False by blast
  qed
qed

lemma RR_loop_idle: "idle s \<Longrightarrow> RR_loop n s = None"
  using RR_loop_not_idle [of n s] by (cases "RR_loop n s") auto

text \<open>
  C1 (fails on the code). The outer loop of \<open>RRSchedule\<close> advances \<open>serviceTime\<close> only
  when it runs a process. On the single valid process with arrival 1 and burst 1 the first
  pass finds nothing that has arrived, changes nothing, and the loop never ends: the
  scheduler does not return.
\<close>

theorem RRSchedule_never_returns:
  "RRSchedule [\<lparr>ProcessID = 1, ArrivalTime = 1, BurstDuration = 1, Priority = 0\<rparr>] = None"
proof -
  have "idle (init_work [\<lparr>ProcessID = 1, ArrivalTime = 1, BurstDuration = 1, Priority = 0\<rparr>])"
    by (simp add: idle_def init_work_def word_sle_eq)
  then show ?thesis
    by (simp add: RRSchedule_def RR_loop_idle)
qed

section \<open>Runs on concrete inputs\<close>

text \<open>
  C4 (fails on the code). The Gantt entries do not add up to the bursts. SJF and priority
  scheduling stop an entry at \<open>start + turnaround\<close>, which counts the wait a second time;
  round-robin does the same for every quantum; FCFS starts an entry at a wait carried over
  from the previous process when the arrival is 0.
\<close>

theorem cpu_time_not_conserved:
  "cpu_time (outGantt (FCFSSchedule
      [\<lparr>ProcessID = 1, ArrivalTime = 0, BurstDuration = 5, Priority = 0\<rparr>,
       \<lparr>ProcessID = 2, ArrivalTime = 0, BurstDuration = 3, Priority = 0\<rparr>])) = 13
   \<and> total_burst
      [\<lparr>ProcessID = 1, ArrivalTime = 0, BurstDuration = 5, Priority = 0\<rparr>,
       \<lparr>ProcessID = 2, ArrivalTime = 0, BurstDuration = 3, Priority = 0\<rparr>] = 8
   \<and> map_sum id (\<lambda>r. cpu_time (outGantt r))
        (SJFSchedule [\<lparr>ProcessID = 1, ArrivalTime = 2, BurstDuration = 5, Priority = 0\<rparr>]) = Inr 7
   \<and> map_sum id (\<lambda>r. cpu_time (outGantt r))
        (SJFPrioritySchedule [\<lparr>ProcessID = 1, ArrivalTime = 2, BurstDuration = 5, Priority = 0\<rparr>]) = Inr 7
   \<and> total_burst [\<lparr>ProcessID = 1, ArrivalTime = 2, BurstDuration = 5, Priority = 0\<rparr>] = 5
   \<and> map_option (map_sum id (\<lambda>r. cpu_time (outGantt r)))
        (RRSchedule [\<lparr>ProcessID = 1, ArrivalTime = 0, BurstDuration = 2, Priority = 0\<rparr>]) = Some (Inr 3)
   \<and> total_burst [\<lparr>ProcessID = 1, ArrivalTime = 0, BurstDuration = 2, Priority = 0\<rparr>] = 2"
  by code_simp

text \<open>
  C6 (fails on the code). Round-robin on one process with arrival 0 and burst 2 returns two
  Gantt entries, but the second one is \<open>[2, 4]\<close>, of width 2, and the recorded wait is 1;
  only the number of entries and the exit time 2 are as claimed.
\<close>

theorem RRSchedule_single_burst_2:
  "RRSchedule [\<lparr>ProcessID = 1, ArrivalTime = 0, BurstDuration = 2, Priority = 0\<rparr>] =
     Some (Inr
       \<lparr>outGantt = [\<lparr>PID = 1, Start = 0, Stop = 1\<rparr>, \<lparr>PID = 1, Start = 2, Stop = 4\<rparr>],
        outRows = [Some \<lparr>rowID = 1, rowPriority = 0, rowBurst = 2, rowArrival = 0,
                         rowWait = 1, rowTurnaround = 2, rowExit = 2\<rparr>],
        aveWait = Finite 1, aveTurnaround = Finite 3, aveThroughput = Finite (1 / 2)\<rparr>)"
  by code_simp

text \<open>
  C7 (fails on the code). A single process with arrival 10 and burst 5 is a valid input:
  its arrival is not negative and its burst is positive. FCFS records the wait \<open>0 - 10\<close>
  for it, the sum of the waits is \<open>-10\<close>, and the average wait is \<open>-10 / 1\<close>, below 0.
\<close>

theorem FCFS_negative_average_wait:
  "aveWait (FCFSSchedule
      [\<lparr>ProcessID = 1, ArrivalTime = 10, BurstDuration = 5, Priority = 0\<rparr>]) = Finite (- 10)
   \<and> outRows (FCFSSchedule
      [\<lparr>ProcessID = 1, ArrivalTime = 10, BurstDuration = 5, Priority = 0\<rparr>]) =
      [Some \<lparr>rowID = 1, rowPriority = 0, rowBurst = 5, rowArrival = 10,
             rowWait = - 10, rowTurnaround = - 5, rowExit = 5\<rparr>]
   \<and> outGantt (FCFSSchedule
      [\<lparr>ProcessID = 1, ArrivalTime = 10, BurstDuration = 5, Priority = 0\<rparr>]) =
      [\<lparr>PID = 1, Start = 0, Stop = 5\<rparr>]
   \<and> (0 :: int64) \<le>s 10 \<and> (0 :: int64) <s 5"
  by code_simp

text \<open>
  C8. On the empty process list every scheduler returns: no loop body runs, no row and no
  Gantt entry is produced, and the three quotients are \<open>0 / 0\<close>, that is NaN.
\<close>

theorem empty_process_list:
  "FCFSSchedule [] =
     \<lparr>outGantt = [], outRows = [], aveWait = NaN, aveTurnaround = NaN, aveThroughput = NaN\<rparr>
   \<and> SJFSchedule [] = Inr
     \<lparr>outGantt = [], outRows = [], aveWait = NaN, aveTurnaround = NaN, aveThroughput = NaN\<rparr>
   \<and> SJFPrioritySchedule [] = Inr
     \<lparr>outGantt = [], outRows = [], aveWait = NaN, aveTurnaround = NaN, aveThroughput = NaN\<rparr>
   \<and> RRSchedule [] = Some (Inr
     \<lparr>outGantt = [], outRows = [], aveWait = NaN, aveTurnaround = NaN, aveThroughput = NaN\<rparr>)"
  by code_simp

section \<open>Selection in SJF and priority scheduling\<close>

lemma scan_first_least:
  fixes key :: "nat \<Rightarrow> int64"
  assumes "cp \<noteq> []"
  shows "first_least key (candidate cp st) (length cp)
     (fold (\<lambda>i idx. if ArrivalTime (cp ! i) \<le>s st then (if key i <s key idx then i else idx) else idx)
        [0..<length cp] 0)"
  using assms
    scan_fold [of "\<lambda>i. ArrivalTime (cp ! i) \<le>s st" "\<lambda>i. sint (key i)" "length cp"]
  unfolding first_least_def candidate_def word_sle_eq word_sless_alt
  by (auto simp: less_trans)

lemma run_job_Inr:
  assumes "run_job n i s = Inr s'"
  shows "copyProcesses s' = remove_at i (copyProcesses s)"
    and "PID (last (gantt s')) = ProcessID (copyProcesses s ! i)"
    and "length (gantt s') = Suc (length (gantt s))"
  using assms by (auto simp: run_job_def Let_def split: sum.splits)

text \<open>
  What the two scans compute, for every state of the loop: the index selected, removed
  from the working list and entered in the Gantt chart is the first one with the least key
  among index 0 and the indices of the processes that have arrived. Index 0 is where the
  scan starts, and nothing tests its arrival.
\<close>

lemma scan_selection:
  assumes "copyProcesses s \<noteq> []"
  shows "first_least (\<lambda>j. lookup (remainingBurst s) (ProcessID (copyProcesses s ! j)))
           (candidate (copyProcesses s) (serviceTime s)) (length (copyProcesses s))
           (shortestJobIndex (copyProcesses s) (serviceTime s) (remainingBurst s))
       \<and> (\<forall>s'. SJF_iter n s = Inr s' \<longrightarrow>
             copyProcesses s' =
               remove_at (shortestJobIndex (copyProcesses s) (serviceTime s) (remainingBurst s)) (copyProcesses s)
           \<and> PID (last (gantt s')) =
               ProcessID (copyProcesses s ! shortestJobIndex (copyProcesses s) (serviceTime s) (remainingBurst s)))
       \<and> first_least (\<lambda>j. Priority (copyProcesses s ! j))
           (candidate (copyProcesses s) (serviceTime s)) (length (copyProcesses s))
           (highestPriorityIndex (copyProcesses s) (serviceTime s))
       \<and> (\<forall>s'. Priority_iter n s = Inr s' \<longrightarrow>
             copyProcesses s' =
               remove_at (highestPriorityIndex (copyProcesses s) (serviceTime s)) (copyProcesses s)
           \<and> PID (last (gantt s')) =
               ProcessID (copyProcesses s ! highestPriorityIndex (copyProcesses s) (serviceTime s)))"
proof (intro conjI allI impI)
  show "first_least (\<lambda>j. lookup (remainingBurst s) (ProcessID (copyProcesses s ! j)))
           (candidate (copyProcesses s) (serviceTime s)) (length (copyProcesses s))
           (shortestJobIndex (copyProcesses s) (serviceTime s) (remainingBurst s))"
    unfolding shortestJobIndex_def SJF_scan_def
    using scan_first_least [OF assms, of "\<lambda>j. lookup (remainingBurst s) (ProcessID (copyProcesses s ! j))"]
    by simp
  show "first_least (\<lambda>j. Priority (copyProcesses s ! j))
           (candidate (copyProcesses s) (serviceTime s)) (length (copyProcesses s))
           (highestPriorityIndex (copyProcesses s) (serviceTime s))"
    unfolding highestPriorityIndex_def Priority_scan_def
    using scan_first_least [OF assms, of "\<lambda>j. Priority (copyProcesses s ! j)"]
    by simp
qed (auto simp: SJF_iter_def Priority_iter_def dest: run_job_Inr)


text \<open>
  C3 (fails on the code). The working list holds process 1 (arrival 10, burst 1,
  priority 0) before process 2 (arrival 0, burst 5, priority 1). At time 0 only process 2
  has arrived, so it is the one to select. Both scans answer index 0: they test the
  arrival of the challenger \<open>i\<close> and never that of the index they start from. Both
  schedulers run process 1 first, from time 10, and process 2 after it.
\<close>

theorem selection_picks_unarrived:
  "shortestJobIndex
      [\<lparr>ProcessID = 1, ArrivalTime = 10, BurstDuration = 1, Priority = 0\<rparr>,
       \<lparr>ProcessID = 2, ArrivalTime = 0, BurstDuration = 5, Priority = 1\<rparr>] 0
      (init_remaining
        [\<lparr>ProcessID = 1, ArrivalTime = 10, BurstDuration = 1, Priority = 0\<rparr>,
         \<lparr>ProcessID = 2, ArrivalTime = 0, BurstDuration = 5, Priority = 1\<rparr>]) = 0
   \<and> highestPriorityIndex
      [\<lparr>ProcessID = 1, ArrivalTime = 10, BurstDuration = 1, Priority = 0\<rparr>,
       \<lparr>ProcessID = 2, ArrivalTime = 0, BurstDuration = 5, Priority = 1\<rparr>] 0 = 0
   \<and> \<not> (10 :: int64) \<le>s 0 \<and> (0 :: int64) \<le>s 0
   \<and> map_sum id outGantt (SJFSchedule
      [\<lparr>ProcessID = 1, ArrivalTime = 10, BurstDuration = 1, Priority = 0\<rparr>,
       \<lparr>ProcessID = 2, ArrivalTime = 0, BurstDuration = 5, Priority = 1\<rparr>])
     = Inr [\<lparr>PID = 1, Start = 10, Stop = 21\<rparr>, \<lparr>PID = 2, Start = 21, Stop = 36\<rparr>]
   \<and> map_sum id outGantt (SJFPrioritySchedule
      [\<lparr>ProcessID = 1, ArrivalTime = 10, BurstDuration = 1, Priority = 0\<rparr>,
       \<lparr>ProcessID = 2, ArrivalTime = 0, BurstDuration = 5, Priority = 1\<rparr>])
     = Inr [\<lparr>PID = 1, Start = 10, Stop = 21\<rparr>, \<lparr>PID = 2, Start = 21, Stop = 36\<rparr>]"
  by code_simp

section \<open>Rows and Gantt entries of FCFS\<close>

lemma summary_simps [simp]:
  "outGantt (summary n s) = gantt s"
  "outRows (summary n s) = schedule s"
  "aveWait (summary n s) = fdiv (totalWait s) (float64_of_len n)"
  "aveTurnaround (summary n s) = fdiv (totalTurnaround s) (float64_of_len n)"
  "aveThroughput (summary n s) = fdiv (float64_of_len n) (lastCompletion s)"
  by (simp_all add: summary_def Let_def)

lemma FCFS_loop_0: "FCFS_loop ps 0 = init_locals (length ps)"
  by (simp add: FCFS_loop_def)

lemma FCFS_loop_Suc: "FCFS_loop ps (Suc k) = FCFS_body ps k (FCFS_loop ps k)"
  by (simp add: FCFS_loop_def)

lemma FCFS_lengths:
  "length (schedule (FCFS_loop ps k)) = length ps \<and> length (gantt (FCFS_loop ps k)) = k"
  by (induction k) (simp_all add: FCFS_loop_0 FCFS_loop_Suc init_locals_def FCFS_body_def Let_def)

lemma FCFS_length_schedule [simp]: "length (schedule (FCFS_loop ps k)) = length ps"
  using FCFS_lengths by blast

lemma FCFS_length_gantt [simp]: "length (gantt (FCFS_loop ps k)) = k"
  using FCFS_lengths by blast

lemma FCFS_serviceTime:
  "k \<le> length ps \<Longrightarrow> serviceTime (FCFS_loop ps k) = total_burst (take k ps)"
  by (induction k)
    (simp_all add: FCFS_loop_0 FCFS_loop_Suc init_locals_def FCFS_body_def Let_def
      total_burst_def take_Suc_conv_app_nth)

lemma FCFS_schedule_stable:
  "i < k \<Longrightarrow> schedule (FCFS_loop ps (k + d)) ! i = schedule (FCFS_loop ps k) ! i"
  by (induction d) (simp_all add: FCFS_loop_Suc FCFS_body_def Let_def)

lemma FCFS_gantt_stable:
  "i < k \<Longrightarrow> gantt (FCFS_loop ps (k + d)) ! i = gantt (FCFS_loop ps k) ! i"
  by (induction d) (simp_all add: FCFS_loop_Suc FCFS_body_def Let_def nth_append)

text \<open>The row and the Gantt entry that iteration \<open>i\<close> writes, in the final state.\<close>

lemma FCFS_final_row:
  assumes "i < length ps"
  shows "schedule (FCFS_loop ps (length ps)) ! i = schedule (FCFS_body ps i (FCFS_loop ps i)) ! i"
    and "gantt (FCFS_loop ps (length ps)) ! i = gantt (FCFS_body ps i (FCFS_loop ps i)) ! i"
proof -
  from assms obtain d where d: "length ps = Suc i + d"
    by (metis Suc_leI le_Suc_ex)
  show "schedule (FCFS_loop ps (length ps)) ! i = schedule (FCFS_body ps i (FCFS_loop ps i)) ! i"
    unfolding d using FCFS_schedule_stable [of i "Suc i" ps d] by (simp add: FCFS_loop_Suc)
  show "gantt (FCFS_loop ps (length ps)) ! i = gantt (FCFS_body ps i (FCFS_loop ps i)) ! i"
    unfolding d using FCFS_gantt_stable [of i "Suc i" ps d] by (simp add: FCFS_loop_Suc)
qed

lemma FCFS_waitingTime:
  "k \<le> length ps \<Longrightarrow> waitingTime (FCFS_loop ps k) =
     (if k = 0 then 0 else wait_of (schedule (FCFS_loop ps k) ! (k - 1)))"
  by (cases k)
    (simp_all add: FCFS_loop_0 FCFS_loop_Suc init_locals_def FCFS_body_def Let_def wait_of_def
      )

lemma FCFS_row_at:
  assumes "i < length ps"
  defines "p \<equiv> ps ! i"
  defines "w \<equiv> (if 0 <s ArrivalTime p then total_burst (take i ps) - ArrivalTime p
                 else if i = 0 then 0 else wait_of (outRows (FCFSSchedule ps) ! (i - 1)))"
  shows "outRows (FCFSSchedule ps) ! i = Some
           \<lparr>rowID = ProcessID p, rowPriority = Priority p, rowBurst = BurstDuration p,
            rowArrival = ArrivalTime p, rowWait = w, rowTurnaround = BurstDuration p + w,
            rowExit = BurstDuration p + ArrivalTime p + w\<rparr>"
    and "outGantt (FCFSSchedule ps) ! i =
           \<lparr>PID = ProcessID p, Start = w + ArrivalTime p, Stop = total_burst (take (Suc i) ps)\<rparr>"
proof -
  have prev: "i \<noteq> 0 \<Longrightarrow> outRows (FCFSSchedule ps) ! (i - 1) = schedule (FCFS_loop ps i) ! (i - 1)"
    using assms(1) FCFS_final_row(1) [of "i - 1" ps]
    by (cases i) (simp_all add: FCFSSchedule_def FCFS_loop_Suc)
  have w: "w = (if 0 <s ArrivalTime p then serviceTime (FCFS_loop ps i) - ArrivalTime p
                else waitingTime (FCFS_loop ps i))"
    using assms(1) prev by (simp add: w_def FCFS_serviceTime FCFS_waitingTime)
  show "outRows (FCFSSchedule ps) ! i = Some
           \<lparr>rowID = ProcessID p, rowPriority = Priority p, rowBurst = BurstDuration p,
            rowArrival = ArrivalTime p, rowWait = w, rowTurnaround = BurstDuration p + w,
            rowExit = BurstDuration p + ArrivalTime p + w\<rparr>"
    using assms(1) FCFS_final_row(1) [OF assms(1)]
    by (simp add: FCFSSchedule_def FCFS_body_def Let_def w p_def)
  show "outGantt (FCFSSchedule ps) ! i =
           \<lparr>PID = ProcessID p, Start = w + ArrivalTime p, Stop = total_burst (take (Suc i) ps)\<rparr>"
    using assms(1) FCFS_final_row(2) [OF assms(1)]
    by (simp add: FCFSSchedule_def FCFS_body_def Let_def w p_def nth_append
        FCFS_serviceTime total_burst_def take_Suc_conv_app_nth)
qed

section \<open>Rows of SJF and priority scheduling\<close>

lemma timed_row_update:
  "k < m \<Longrightarrow> timed_row ps (rows[m := x]) k = timed_row ps rows k"
  by (simp add: timed_row_def cong: option.case_cong)

lemma set_remove_at: "set (remove_at i xs) \<subseteq> set xs"
  unfolding remove_at_def by (auto dest: in_set_takeD in_set_dropD)

lemma length_remove_at: "i < length xs \<Longrightarrow> length (remove_at i xs) = length xs - 1"
  unfolding remove_at_def by simp

lemma run_job_rows_inv:
  assumes inv: "rows_inv n ps s" and idx: "idx < length (copyProcesses s)"
  shows "\<exists>s'. run_job n idx s = Inr s' \<and> rows_inv n ps s' \<and>
           length (copyProcesses s') = length (copyProcesses s) - 1"
proof -
  let ?cp = "copyProcesses s"
  let ?m = "n - length ?cp"
  from inv idx have len: "length (schedule s) = n" "length ?cp \<le> n" "?m < n" "0 < length ?cp"
    by (auto simp: rows_inv_def)
  then have sr: "\<And>r. set_row n (length ?cp) r (schedule s) = Inr ((schedule s)[?m := Some r])"
    by (simp add: set_row_def Let_def nat_minus_as_int of_nat_diff)
  obtain s' where s': "run_job n idx s = Inr s'"
    by (simp add: run_job_def Let_def sr)
  have cp': "copyProcesses s' = remove_at idx ?cp"
    using s' by (auto simp: run_job_def Let_def sr)
  have m': "n - length (copyProcesses s') = Suc ?m"
    using len idx by (simp add: cp' length_remove_at)
  have mem: "?cp ! idx \<in> set ps"
    using inv idx by (auto simp: rows_inv_def)
  have old: "\<forall>k < ?m. timed_row ps (schedule s') k"
    using inv s' by (auto simp: rows_inv_def run_job_def Let_def sr timed_row_update)
  have st: "serviceTime s = (if ?m = 0 then 0 else exit_of (schedule s ! (?m - 1)))"
    using inv by (simp add: rows_inv_def)
  have new: "timed_row ps (schedule s') ?m"
    using s' len mem st
    by (auto simp: run_job_def Let_def sr timed_row_def list_ex_iff row_of_def)
  have st': "serviceTime s' = exit_of (schedule s' ! ?m)"
    using s' len by (auto simp: run_job_def Let_def sr exit_of_def)
  have "rows_inv n ps s'"
    unfolding rows_inv_def m'
    using old new st' len s' set_remove_at [of idx ?cp] inv idx
    by (auto simp: less_Suc_eq cp' length_remove_at rows_inv_def run_job_def Let_def sr)
  with s' cp' idx show ?thesis by (simp add: length_remove_at)
qed

lemma SJF_loop_rows_inv:
  "rows_inv n ps s \<Longrightarrow> \<exists>s'. SJF_loop n s = Inr s' \<and> rows_inv n ps s' \<and> copyProcesses s' = []"
proof (induction n s rule: SJF_loop.induct)
  case (1 n s)
  show ?case
  proof (cases "copyProcesses s = []")
    case True
    with 1 show ?thesis by simp
  next
    case False
    then obtain s1 where s1: "SJF_iter n s = Inr s1" "rows_inv n ps s1"
      using run_job_rows_inv [OF "1.prems", of "shortestJobIndex (copyProcesses s) (serviceTime s) (remainingBurst s)"]
        shortestJobIndex_less [OF False]
      by (auto simp: SJF_iter_def)
    with "1.IH" [OF False s1(1) s1(2)] False show ?thesis by simp
  qed
qed

lemma Priority_loop_rows_inv:
  "rows_inv n ps s \<Longrightarrow> \<exists>s'. Priority_loop n s = Inr s' \<and> rows_inv n ps s' \<and> copyProcesses s' = []"
proof (induction n s rule: Priority_loop.induct)
  case (1 n s)
  show ?case
  proof (cases "copyProcesses s = []")
    case True
    with 1 show ?thesis by simp
  next
    case False
    then obtain s1 where s1: "Priority_iter n s = Inr s1" "rows_inv n ps s1"
      using run_job_rows_inv [OF "1.prems", of "highestPriorityIndex (copyProcesses s) (serviceTime s)"]
        highestPriorityIndex_less [OF False]
      by (auto simp: Priority_iter_def)
    with "1.IH" [OF False s1(1) s1(2)] False show ?thesis by simp
  qed
qed

lemma rows_inv_init: "rows_inv (length ps) ps (init_work ps)"
  by (simp add: rows_inv_def init_work_def)

text \<open>
  C2 (fails on the code). The loop assigns the wait only under
  \<open>if processes[i].ArrivalTime > 0\<close>, and as \<open>serviceTime - ArrivalTime\<close> with no lower
  bound. A single process with arrival 10 and burst 5 records the wait \<open>-10\<close>, not
  \<open>max(0, 0 - 10)\<close>, and its Gantt entry starts at 0, before it arrives. A second process
  with arrival 0 after a burst of 5 keeps the wait 0 of the first row, not \<open>max(0, 5 - 0)\<close>:
  its row exits at 3 while its Gantt entry is \<open>[0, 8]\<close>.
\<close>

theorem FCFS_wait_not_max:
  "map (map_option (\<lambda>r. sint (rowWait r))) (outRows (FCFSSchedule
      [\<lparr>ProcessID = 1, ArrivalTime = 10, BurstDuration = 5, Priority = 0\<rparr>])) = [Some (- 10)]
   \<and> max 0 (sint (total_burst [] :: int64) - sint (10 :: int64)) = 0
   \<and> outGantt (FCFSSchedule
      [\<lparr>ProcessID = 1, ArrivalTime = 10, BurstDuration = 5, Priority = 0\<rparr>])
     = [\<lparr>PID = 1, Start = 0, Stop = 5\<rparr>]
   \<and> map (map_option (\<lambda>r. (sint (rowWait r), sint (rowExit r)))) (outRows (FCFSSchedule
      [\<lparr>ProcessID = 1, ArrivalTime = 0, BurstDuration = 5, Priority = 0\<rparr>,
       \<lparr>ProcessID = 2, ArrivalTime = 0, BurstDuration = 3, Priority = 0\<rparr>]))
     = [Some (0, 5), Some (0, 3)]
   \<and> max 0 (sint (total_burst
      [\<lparr>ProcessID = 1, ArrivalTime = 0, BurstDuration = 5, Priority = 0\<rparr>]) - sint (0 :: int64)) = 5
   \<and> outGantt (FCFSSchedule
      [\<lparr>ProcessID = 1, ArrivalTime = 0, BurstDuration = 5, Priority = 0\<rparr>,
       \<lparr>ProcessID = 2, ArrivalTime = 0, BurstDuration = 3, Priority = 0\<rparr>])
     = [\<lparr>PID = 1, Start = 0, Stop = 5\<rparr>, \<lparr>PID = 2, Start = 0, Stop = 8\<rparr>]"
  by code_simp

text \<open>
  C5 (amended). Every row of FCFS, SJF and priority scheduling records turnaround = wait +
  burst. The recorded exit is arrival + wait + burst in FCFS; in SJF and priority
  scheduling it is the clock at the start of the iteration (the exit of the previous row,
  0 for the first) + wait + burst. SJF and priority scheduling return a table with one row
  for each input process.
\<close>

theorem row_identities:
  "(\<forall>i<length ps. \<exists>r. outRows (FCFSSchedule ps) ! i = Some r \<and> row_of (ps ! i) r
       \<and> rowTurnaround r = rowWait r + rowBurst r
       \<and> rowExit r = rowArrival r + rowWait r + rowBurst r)
   \<and> (\<exists>R. SJFSchedule ps = Inr R \<and> length (outRows R) = length ps
         \<and> (\<forall>k<length ps. timed_row ps (outRows R) k))
   \<and> (\<exists>R. SJFPrioritySchedule ps = Inr R \<and> length (outRows R) = length ps
         \<and> (\<forall>k<length ps. timed_row ps (outRows R) k))"
proof (intro conjI allI impI)
  fix i assume "i < length ps"
  from FCFS_row_at(1) [OF this]
  show "\<exists>r. outRows (FCFSSchedule ps) ! i = Some r \<and> row_of (ps ! i) r
       \<and> rowTurnaround r = rowWait r + rowBurst r
       \<and> rowExit r = rowArrival r + rowWait r + rowBurst r"
    by (simp add: row_of_def)
next
  from SJF_loop_rows_inv [OF rows_inv_init, of ps]
  show "\<exists>R. SJFSchedule ps = Inr R \<and> length (outRows R) = length ps
         \<and> (\<forall>k<length ps. timed_row ps (outRows R) k)"
    by (auto simp: SJFSchedule_def rows_inv_def)
next
  from Priority_loop_rows_inv [OF rows_inv_init, of ps]
  show "\<exists>R. SJFPrioritySchedule ps = Inr R \<and> length (outRows R) = length ps
         \<and> (\<forall>k<length ps. timed_row ps (outRows R) k)"
    by (auto simp: SJFPrioritySchedule_def rows_inv_def)
qed

theorem row_identities_witness:
  "(\<exists>r. outRows (FCFSSchedule
      [\<lparr>ProcessID = 1, ArrivalTime = 0, BurstDuration = 5, Priority = 2\<rparr>,
       \<lparr>ProcessID = 2, ArrivalTime = 0, BurstDuration = 3, Priority = 1\<rparr>]) ! 1 = Some r
      \<and> rowTurnaround r = rowWait r + 3 \<and> rowExit r = 0 + rowWait r + 3)
   \<and> (\<exists>R. SJFSchedule
      [\<lparr>ProcessID = 1, ArrivalTime = 0, BurstDuration = 5, Priority = 2\<rparr>,
       \<lparr>ProcessID = 2, ArrivalTime = 0, BurstDuration = 3, Priority = 1\<rparr>] = Inr R
      \<and> timed_row
      [\<lparr>ProcessID = 1, ArrivalTime = 0, BurstDuration = 5, Priority = 2\<rparr>,
       \<lparr>ProcessID = 2, ArrivalTime = 0, BurstDuration = 3, Priority = 1\<rparr>] (outRows R) 1)
   \<and> (\<exists>R. SJFPrioritySchedule
      [\<lparr>ProcessID = 1, ArrivalTime = 0, BurstDuration = 5, Priority = 2\<rparr>,
       \<lparr>ProcessID = 2, ArrivalTime = 0, BurstDuration = 3, Priority = 1\<rparr>] = Inr R
      \<and> timed_row
      [\<lparr>ProcessID = 1, ArrivalTime = 0, BurstDuration = 5, Priority = 2\<rparr>,
       \<lparr>ProcessID = 2, ArrivalTime = 0, BurstDuration = 3, Priority = 1\<rparr>] (outRows R) 1)"
  using row_identities [of
      "[\<lparr>ProcessID = 1, ArrivalTime = 0, BurstDuration = 5, Priority = 2\<rparr>,
       \<lparr>ProcessID = 2, ArrivalTime = 0, BurstDuration = 3, Priority = 1\<rparr>]"]
  by (auto simp: row_of_def)

text \<open>
  C5 as stated fails for SJF and priority scheduling: process 1 (arrival 0, burst 5) runs
  second, after a burst of 3; its row records wait 0 and exit 8, not \<open>0 + 0 + 5\<close>.
\<close>

theorem completion_counterexample:
  "map_sum id (\<lambda>R. map (map_option (\<lambda>r. (rowID r, rowArrival r, rowWait r, rowBurst r, rowExit r))) (outRows R))
     (SJFSchedule
      [\<lparr>ProcessID = 1, ArrivalTime = 0, BurstDuration = 5, Priority = 2\<rparr>,
       \<lparr>ProcessID = 2, ArrivalTime = 0, BurstDuration = 3, Priority = 1\<rparr>])
     = Inr [Some (2, 0, 0, 3, 3), Some (1, 0, 0, 5, 8)]
   \<and> map_sum id (\<lambda>R. map (map_option (\<lambda>r. (rowID r, rowArrival r, rowWait r, rowBurst r, rowExit r))) (outRows R))
     (SJFPrioritySchedule
      [\<lparr>ProcessID = 1, ArrivalTime = 0, BurstDuration = 5, Priority = 2\<rparr>,
       \<lparr>ProcessID = 2, ArrivalTime = 0, BurstDuration = 3, Priority = 1\<rparr>])
     = Inr [Some (2, 0, 0, 3, 3), Some (1, 0, 0, 5, 8)]
   \<and> (0 :: int64) + 0 + 5 \<noteq> 8"
  by code_simp

section \<open>The remaining-burst map of SJF and priority scheduling\<close>


















end
